theory Spec2Isabelle
  imports Complex_Main "HOL-Library.AList"
begin

section \<open>Shared data model of \<open>examples/advanced-pytorch/utils.py\<close>\<close>

text \<open>
  The file is glue code around three libraries (torch, torchvision, flwr_datasets).  The
  library primitives it calls are parameters of the model; everything the file itself does
  (the order of the calls, the loops, the \<open>steps\<close> bound, the division, the assignments)
  is written out.  Python exceptions are values of \<open>py_error\<close>; floats are reals.
\<close>

datatype py_error = ZeroDivisionError | KeyError | TypeError | ProviderError

datatype device = CPU | CUDA nat

text \<open>The keyword arguments of \<open>torch.optim.SGD\<close>.\<close>

record sgd_hyper =
  lr :: real
  momentum :: real
  weight_decay :: real

text \<open>
  The calls the file makes on the model, the loss and the optimizer, in the order made:
  \<open>net.to(d)\<close>, \<open>net.train()\<close>, \<open>net.eval()\<close>, \<open>optimizer.zero_grad()\<close>, \<open>net(images)\<close>,
  \<open>criterion(outputs, labels)\<close>, \<open>loss.backward()\<close>, \<open>optimizer.step()\<close>.
\<close>

datatype 'x call =
    To device
  | TrainMode
  | EvalMode
  | ZeroGrad
  | Forward 'x
  | CrossEntropy
  | Backward
  | Step sgd_hyper

text \<open>A batch as the loops read it: \<open>batch["img"]\<close> and \<open>batch["label"]\<close>.\<close>

record 'x batch =
  img :: 'x
  label :: "int list"

text \<open>
  The tensor library: the forward pass of the network in training or inference mode
  (\<open>net(images)\<close>), the loss tensor \<open>criterion(outputs, labels)\<close> of \<open>CrossEntropyLoss\<close>, the
  number \<open>.item()\<close> reads from it, \<open>torch.max(outputs.data, 1)\<close> (the predicted class of
  every row), \<open>zero_grad\<close>, \<open>loss.backward()\<close> (which adds the gradient of the loss tensor to
  the accumulated gradients), the initial optimizer state and the SGD update.
\<close>

record ('w, 'x, 'y, 'l, 'g, 'o) torch =
  forward :: "bool \<Rightarrow> 'w \<Rightarrow> 'x \<Rightarrow> 'y"
  cross_entropy :: "'y \<Rightarrow> int list \<Rightarrow> 'l"
  item :: "'l \<Rightarrow> real"
  argmax :: "'y \<Rightarrow> int list"
  zero_grad :: "'g \<Rightarrow> 'g"
  backward :: "'l \<Rightarrow> 'g \<Rightarrow> 'g"
  sgd_init :: "'w \<Rightarrow> 'o"
  sgd_step :: "sgd_hyper \<Rightarrow> 'o \<Rightarrow> 'w \<Rightarrow> 'g \<Rightarrow> 'w \<times> 'o"

text \<open>
  The model object \<open>net\<close>: its weights, their accumulated gradients, the device it
  resides on, its mode flag, and the log of the calls made on it so far.
\<close>

record ('w, 'g, 'x) net =
  params :: 'w
  grads :: 'g
  device :: device
  training :: bool
  calls :: "'x call list"

text \<open>
  A data loader: the dataset behind it (\<open>testloader.dataset\<close>) and the batches it
  yields on its \<open>i\<close>-th iteration (a shuffling loader yields another order every time).
\<close>

record ('x, 's) loader =
  dataset :: "'s list"
  batches_of :: "nat \<Rightarrow> 'x batch list"
  iters :: nat

definition loader_iter :: "('x, 's) loader \<Rightarrow> 'x batch list \<times> ('x, 's) loader" where
  "loader_iter l = (batches_of l (iters l), l\<lparr>iters := Suc (iters l)\<rparr>)"

definition net_to :: "device \<Rightarrow> ('w, 'g, 'x) net \<Rightarrow> ('w, 'g, 'x) net" where
  "net_to d net = net\<lparr>device := d, calls := calls net @ [To d]\<rparr>"

definition net_eval :: "('w, 'g, 'x) net \<Rightarrow> ('w, 'g, 'x) net" where
  "net_eval net = net\<lparr>training := False, calls := calls net @ [EvalMode]\<rparr>"

definition net_train :: "('w, 'g, 'x) net \<Rightarrow> ('w, 'g, 'x) net" where
  "net_train net = net\<lparr>training := True, calls := calls net @ [TrainMode]\<rparr>"

text \<open>The images of the forward passes in a log, in order.\<close>

fun forwarded :: "'x call list \<Rightarrow> 'x list" where
  "forwarded [] = []"
| "forwarded (Forward x # cs) = x # forwarded cs"
| "forwarded (c # cs) = forwarded cs"

section \<open>The evaluation loop \<open>test\<close>\<close>

text \<open>\<open>(predicted == labels).sum().item()\<close> on two vectors of class indices.\<close>

definition count_equal :: "int list \<Rightarrow> int list \<Rightarrow> int" where
  "count_equal predicted labels =
     int (length (filter (\<lambda>(p, l). p = l) (zip predicted labels)))"

text \<open>
  The body of \<open>for batch_idx, batch in enumerate(testloader)\<close>, with the \<open>break\<close> as
  the branch that does not recurse.  \<open>steps\<close> is \<open>None\<close> or a Python integer.  The
  copies \<open>images.to(device)\<close> and \<open>labels.to(device)\<close> hold the same values and are not
  calls on the model; under \<open>torch.no_grad()\<close> the loop touches no gradient.
\<close>

fun test_loop ::
  "('w, 'x, 'y, 'l, 'g, 'o) torch \<Rightarrow> int option \<Rightarrow> nat \<Rightarrow> 'x batch list \<Rightarrow>
   int \<times> real \<times> ('w, 'g, 'x) net \<Rightarrow> int \<times> real \<times> ('w, 'g, 'x) net" where
  "test_loop T steps batch_idx [] acc = acc"
| "test_loop T steps batch_idx (batch # rest) (correct, loss, net) =
     (let images = img batch;
          labels = label batch;
          outputs = forward T (training net) (params net) images;
          net = net\<lparr>calls := calls net @ [Forward images]\<rparr>;
          loss = loss + item T (cross_entropy T outputs labels);
          net = net\<lparr>calls := calls net @ [CrossEntropy]\<rparr>;
          predicted = argmax T outputs;
          correct = correct + count_equal predicted labels
      in if steps \<noteq> None \<and> int batch_idx = the steps
         then (correct, loss, net)
         else test_loop T steps (Suc batch_idx) rest (correct, loss, net))"

text \<open>
  \<open>test(net, testloader, steps, device)\<close>.  The result is the returned pair
  \<open>(loss, accuracy)\<close> or the exception raised, together with the model and the loader as
  the call leaves them.  The division \<open>correct / len(testloader.dataset)\<close> raises on an
  empty dataset, before \<open>net.to("cpu")\<close> is reached.
\<close>

definition test ::
  "('w, 'x, 'y, 'l, 'g, 'o) torch \<Rightarrow> ('w, 'g, 'x) net \<Rightarrow> ('x, 's) loader \<Rightarrow> int option \<Rightarrow> device \<Rightarrow>
   (py_error + real \<times> real) \<times> ('w, 'g, 'x) net \<times> ('x, 's) loader" where
  "test T net testloader steps dev =
     (let net = net_to dev net;
          net = net_eval net;
          (batches, testloader) = loader_iter testloader;
          (correct, loss, net) = test_loop T steps 0 batches (0, 0, net)
      in if length (dataset testloader) = 0
         then (Inl ZeroDivisionError, net, testloader)
         else (Inr (loss, real_of_int correct / real (length (dataset testloader))),
               net_to CPU net, testloader))"

section \<open>The training loop \<open>train\<close>\<close>

text \<open>The optimizer object: its hyperparameters and its internal state (momentum buffers).\<close>

record 'o optimizer =
  hyper :: sgd_hyper
  opt_state :: 'o

definition SGD ::
  "('w, 'x, 'y, 'l, 'g, 'o) torch \<Rightarrow> 'w \<Rightarrow> real \<Rightarrow> real \<Rightarrow> real \<Rightarrow> 'o optimizer" where
  "SGD T ps l m wd =
     \<lparr>hyper = \<lparr>lr = l, momentum = m, weight_decay = wd\<rparr>, opt_state = sgd_init T ps\<rparr>"

text \<open>
  The body of \<open>for batch in trainloader\<close> (lines 53 to 58).  \<open>loss.backward()\<close> adds the
  gradient of the loss tensor just computed to the accumulated gradients;
  \<open>optimizer.step()\<close> updates the weights and the optimizer's state from them.
\<close>

definition train_batch ::
  "('w, 'x, 'y, 'l, 'g, 'o) torch \<Rightarrow> ('w, 'g, 'x) net \<times> 'o optimizer \<Rightarrow> 'x batch \<Rightarrow>
   ('w, 'g, 'x) net \<times> 'o optimizer" where
  "train_batch T st batch =
     (let (net, optimizer) = st;
          images = img batch;
          labels = label batch;
          net = net\<lparr>grads := zero_grad T (grads net), calls := calls net @ [ZeroGrad]\<rparr>;
          outputs = forward T (training net) (params net) images;
          net = net\<lparr>calls := calls net @ [Forward images]\<rparr>;
          loss = cross_entropy T outputs labels;
          net = net\<lparr>calls := calls net @ [CrossEntropy]\<rparr>;
          net = net\<lparr>grads := backward T loss (grads net), calls := calls net @ [Backward]\<rparr>;
          (w, s) = sgd_step T (hyper optimizer) (opt_state optimizer) (params net) (grads net);
          net = net\<lparr>params := w, calls := calls net @ [Step (hyper optimizer)]\<rparr>;
          optimizer = optimizer\<lparr>opt_state := s\<rparr>
      in (net, optimizer))"

text \<open>One pass of the inner loop over the training loader.\<close>

definition train_pass ::
  "('w, 'x, 'y, 'l, 'g, 'o) torch \<Rightarrow> ('w, 'g, 'x) net \<times> 'o optimizer \<times> ('x, 's) loader \<Rightarrow>
   ('w, 'g, 'x) net \<times> 'o optimizer \<times> ('x, 's) loader" where
  "train_pass T st =
     (let (net, optimizer, trainloader) = st;
          (batches, trainloader) = loader_iter trainloader;
          (net, optimizer) = fold (\<lambda>batch st. train_batch T st batch) batches (net, optimizer)
      in (net, optimizer, trainloader))"

text \<open>
  Lines 45 to 60 of \<open>train\<close>: move to the device, build the optimizer, switch to training
  mode, run \<open>for _ in range(epochs)\<close> (no iteration for \<open>epochs \<le> 0\<close>), move back.
\<close>

definition train_phase ::
  "('w, 'x, 'y, 'l, 'g, 'o) torch \<Rightarrow> ('w, 'g, 'x) net \<Rightarrow> ('x, 's) loader \<Rightarrow> int \<Rightarrow> device \<Rightarrow>
   ('w, 'g, 'x) net \<times> ('x, 's) loader" where
  "train_phase T net trainloader epochs dev =
     (let net = net_to dev net;
          optimizer = SGD T (params net) (1 / 10) (9 / 10) (1 / 10000);
          net = net_train net;
          (net, optimizer, trainloader) =
             (train_pass T ^^ nat epochs) (net, optimizer, trainloader);
          net = net_to CPU net
      in (net, trainloader))"

text \<open>
  \<open>train(net, trainloader, valloader, epochs, device)\<close>: the training phase, then the
  two evaluations with the default arguments of \<open>test\<close> (\<open>steps = None\<close>, the CPU), then the
  \<open>results\<close> dictionary.  An exception of the first evaluation skips the second.
\<close>

definition train ::
  "('w, 'x, 'y, 'l, 'g, 'o) torch \<Rightarrow> ('w, 'g, 'x) net \<Rightarrow> ('x, 's) loader \<Rightarrow> ('x, 's) loader \<Rightarrow>
   int \<Rightarrow> device \<Rightarrow>
   (py_error + (string \<times> real) list) \<times> ('w, 'g, 'x) net \<times> ('x, 's) loader \<times> ('x, 's) loader" where
  "train T net trainloader valloader epochs dev =
     (let (net, trainloader) = train_phase T net trainloader epochs dev
      in case test T net trainloader None CPU of
           (Inl e, net, trainloader) \<Rightarrow> (Inl e, net, trainloader, valloader)
         | (Inr (train_loss, train_acc), net, trainloader) \<Rightarrow>
             (case test T net valloader None CPU of
                (Inl e, net, valloader) \<Rightarrow> (Inl e, net, trainloader, valloader)
              | (Inr (val_loss, val_acc), net, valloader) \<Rightarrow>
                  (Inr [(''train_loss'', train_loss),
                        (''train_accuracy'', train_acc),
                        (''val_loss'', val_loss),
                        (''val_accuracy'', val_acc)],
                   net, trainloader, valloader)))"

text \<open>The log one training batch leaves, and the optimizer steps in a log.\<close>

definition batch_calls :: "sgd_hyper \<Rightarrow> 'x batch \<Rightarrow> 'x call list" where
  "batch_calls h batch = [ZeroGrad, Forward (img batch), CrossEntropy, Backward, Step h]"

text \<open>
  The training step in the words of the spec (section 4.4), to be compared with the loop
  of the source: for each batch, zero the accumulated gradients, compute the
  cross-entropy loss between the model output and the labels, back-propagate it, apply
  one optimizer step.  It acts on the weights, the gradients and the optimizer state,
  with the model in training mode.
\<close>

definition spec_batch_step ::
  "('w, 'x, 'y, 'l, 'g, 'o) torch \<Rightarrow> sgd_hyper \<Rightarrow> 'x batch \<Rightarrow> 'w \<times> 'g \<times> 'o \<Rightarrow> 'w \<times> 'g \<times> 'o" where
  "spec_batch_step T h b st =
     (let (w, g, s) = st;
          g = zero_grad T g;
          loss = cross_entropy T (forward T True w (img b)) (label b);
          g = backward T loss g;
          (w, s) = sgd_step T h s w g
      in (w, g, s))"

fun steps_in :: "'x call list \<Rightarrow> sgd_hyper list" where
  "steps_in [] = []"
| "steps_in (Step h # cs) = h # steps_in cs"
| "steps_in (c # cs) = steps_in cs"

section \<open>The transform pipeline \<open>apply_transforms\<close>\<close>

text \<open>
  The batch handed to \<open>apply_transforms\<close> is a dictionary object whose \<open>"img"\<close> entry
  refers to a list object; the function assigns to that entry and returns the dictionary
  it was given.  Objects therefore live in a store, addressed by their position; a
  dictionary maps keys to addresses, in insertion order.
\<close>

datatype 'v obj = DictObj "(string \<times> nat) list" | ListObj "'v list"

type_synonym 'v store = "'v obj list"

definition deref :: "'v store \<Rightarrow> nat \<Rightarrow> 'v obj option" where
  "deref h a = (if a < length h then Some (h ! a) else None)"

text \<open>
  \<open>pytorch_transforms\<close> stands for the \<open>Compose([Resize(256), CenterCrop(224), ToTensor(),
  Normalize(...)])\<close> object of torchvision.  The list comprehension allocates a new list;
  \<open>batch["img"] = ...\<close> rebinds the key in the dictionary \<open>batch\<close> refers to.  A missing
  key raises \<open>KeyError\<close>; subscripting or iterating an object of the wrong kind raises
  \<open>TypeError\<close>.
\<close>

definition apply_transforms ::
  "('v \<Rightarrow> 'v) \<Rightarrow> 'v store \<Rightarrow> nat \<Rightarrow> (py_error + nat) \<times> 'v store" where
  "apply_transforms pytorch_transforms h batch =
     (case deref h batch of
        Some (DictObj d) \<Rightarrow>
          (case map_of d ''img'' of
             None \<Rightarrow> (Inl KeyError, h)
           | Some a \<Rightarrow>
               (case deref h a of
                  Some (ListObj imgs) \<Rightarrow>
                    (let new = length h;
                         h = h @ [ListObj (map pytorch_transforms imgs)];
                         h = h[batch := DictObj (AList.update ''img'' new d)]
                     in (Inr batch, h))
                | _ \<Rightarrow> (Inl TypeError, h)))
      | _ \<Rightarrow> (Inl TypeError, h))"

section \<open>The model adapter \<open>replace_classifying_layer\<close>\<close>

text \<open>
  A linear layer as \<open>torch.nn.Linear\<close> keeps it, the \<open>classifier\<close> sub-module with its
  \<open>fc\<close> attribute and its other parts, and the model with its other sub-modules,
  parameters and buffers.
\<close>

record 'p linear =
  in_features :: int
  out_features :: int
  weight :: 'p
  bias :: 'p

record ('p, 'c) classifier =
  fc :: "'p linear"
  classifier_rest :: 'c

record ('p, 'c, 'm) efficientnet =
  classifier :: "('p, 'c) classifier"
  backbone :: 'm

text \<open>
  \<open>torch.nn.Linear(in_features, out_features)\<close> stores its two arguments and creates
  freshly initialised weight and bias tensors (\<open>init\<close>, the library's initialiser).
\<close>

definition Linear :: "(int \<Rightarrow> int \<Rightarrow> 'p \<times> 'p) \<Rightarrow> int \<Rightarrow> int \<Rightarrow> 'p linear" where
  "Linear init n_in n_out =
     \<lparr>in_features = n_in, out_features = n_out,
      weight = fst (init n_in n_out), bias = snd (init n_in n_out)\<rparr>"

text \<open>The function has no \<open>return\<close>: it yields \<open>None\<close> and the mutated model.\<close>

definition replace_classifying_layer ::
  "(int \<Rightarrow> int \<Rightarrow> 'p \<times> 'p) \<Rightarrow> ('p, 'c, 'm) efficientnet \<Rightarrow> int \<Rightarrow>
   unit \<times> ('p, 'c, 'm) efficientnet" where
  "replace_classifying_layer init efficientnet_model num_classes =
     (let num_features = in_features (fc (classifier efficientnet_model))
      in ((), efficientnet_model
                \<lparr>classifier := (classifier efficientnet_model)
                   \<lparr>fc := Linear init num_features num_classes\<rparr>\<rparr>))"

section \<open>The data loader \<open>load_partition\<close>\<close>

text \<open>
  A dataset of the provider: its rows and the transform attached to it by
  \<open>with_transform\<close>, which is applied when a row is read and does not change the rows held.
\<close>

record ('a, 't) hf_dataset =
  rows :: "'a list"
  transform :: "'t option"

definition with_transform :: "'t \<Rightarrow> ('a, 't) hf_dataset \<Rightarrow> ('a, 't) hf_dataset" where
  "with_transform f ds = ds\<lparr>transform := Some f\<rparr>"

datatype split_policy = RoundUp | RoundDown

text \<open>
  Modelled from the spec: \<open>train_test_split(test_size=0.2)\<close> is a method of the dataset
  library and is not in the repository's source.  The spec says the partition is split
  80/20, that the two sizes sum to the partition's size and that the test size is about
  20 percent, "rounded per split policy"; both roundings of a fifth are modelled, and the
  test subset is taken from the end of the partition.
\<close>

definition n_test :: "split_policy \<Rightarrow> nat \<Rightarrow> nat" where
  "n_test policy n = (case policy of RoundUp \<Rightarrow> (n + 4) div 5 | RoundDown \<Rightarrow> n div 5)"

definition train_test_split ::
  "split_policy \<Rightarrow> ('a, 't) hf_dataset \<Rightarrow> ('a, 't) hf_dataset \<times> ('a, 't) hf_dataset" where
  "train_test_split policy ds =
     (let n = length (rows ds);
          k = n_test policy n
      in (ds\<lparr>rows := take (n - k) (rows ds)\<rparr>, ds\<lparr>rows := drop (n - k) (rows ds)\<rparr>))"

text \<open>
  \<open>load_partition(node_id)\<close>.  \<open>provider name n node_id\<close> stands for
  \<open>FederatedDataset(dataset=name, partitioners={"train": n}).load_partition(node_id)\<close>:
  the shard of that identifier, or the provider's error for an identifier out of range.
  \<open>f\<close> is the function object \<open>apply_transforms\<close>.  The parameter \<open>toy\<close> of the source
  is never read and is left out.
\<close>

definition load_partition ::
  "(string \<Rightarrow> nat \<Rightarrow> int \<Rightarrow> py_error + ('a, 't) hf_dataset) \<Rightarrow> split_policy \<Rightarrow> 't \<Rightarrow> int \<Rightarrow>
   py_error + ('a, 't) hf_dataset \<times> ('a, 't) hf_dataset" where
  "load_partition provider policy f node_id =
     (case provider ''cifar10'' 10 node_id of
        Inl e \<Rightarrow> Inl e
      | Inr shard \<Rightarrow>
          (let (tr, te) = train_test_split policy shard
           in Inr (with_transform f tr, with_transform f te)))"

section \<open>A small instance\<close>

text \<open>
  Concrete values on which the properties below are exercised: a network whose output for
  an image is the parity of the image's number, a constant loss of one half per batch, a
  loader of four one-sample batches over a dataset of four samples, and a loader over an
  empty dataset.
\<close>

definition toy_torch :: "(int, nat, int list, real, int, int) torch" where
  "toy_torch =
     \<lparr>forward = (\<lambda>mode w x. [int (x mod 2)]),
      cross_entropy = (\<lambda>outputs labels. 1 / 2),
      item = (\<lambda>loss. loss),
      argmax = (\<lambda>outputs. outputs),
      zero_grad = (\<lambda>g. 0),
      backward = (\<lambda>loss g. g + 1),
      sgd_init = (\<lambda>w. 0),
      sgd_step = (\<lambda>h s w g. (w - g, s + g))\<rparr>"

definition toy_net :: "(int, int, nat) net" where
  "toy_net = \<lparr>params = 5, grads = 0, device = CPU, training = True, calls = []\<rparr>"

definition toy_loader :: "(nat, nat) loader" where
  "toy_loader =
     \<lparr>dataset = [0, 1, 2, 3],
      batches_of = (\<lambda>i. [\<lparr>img = 0, label = [0]\<rparr>, \<lparr>img = 1, label = [0]\<rparr>,
                          \<lparr>img = 2, label = [0]\<rparr>, \<lparr>img = 3, label = [1]\<rparr>]),
      iters = 0\<rparr>"

definition empty_loader :: "(nat, nat) loader" where
  "empty_loader = \<lparr>dataset = [], batches_of = (\<lambda>i. []), iters = 0\<rparr>"


text \<open>
  A store with one batch dictionary (address 0) whose \<open>"img"\<close> list is at address 1, a
  model with a 1280-to-1000 classifier head, and a provider whose every shard has seven
  rows.
\<close>

definition toy_store :: "nat store" where
  "toy_store = [DictObj [(''img'', 1), (''label'', 2)], ListObj [10, 20], ListObj [0, 1]]"

definition toy_model :: "(nat, nat, nat) efficientnet" where
  "toy_model =
     \<lparr>classifier = \<lparr>fc = \<lparr>in_features = 1280, out_features = 1000, weight = 1, bias = 2\<rparr>,
                    classifier_rest = 3\<rparr>,
      backbone = 4\<rparr>"

definition toy_provider :: "string \<Rightarrow> nat \<Rightarrow> int \<Rightarrow> py_error + (nat, nat) hf_dataset" where
  "toy_provider name n node_id =
     (if 0 \<le> node_id \<and> node_id < int n
      then Inr \<lparr>rows = [0, 1, 2, 3, 4, 5, 6], transform = None\<rparr>
      else Inl ProviderError)"

section \<open>Properties of the evaluation loop\<close>

lemma forwarded_append: "forwarded (cs @ ds) = forwarded cs @ forwarded ds"
  by (induction cs rule: forwarded.induct) simp_all

text \<open>What \<open>test\<close> returns, given what its loop returns.\<close>

lemma test_unfold:
  assumes "test_loop T steps 0 (batches_of L (iters L)) (0, 0, net_eval (net_to dev net)) = (c, l, n')"
  shows "test T net L steps dev =
    (if dataset L = [] then (Inl ZeroDivisionError, n', L\<lparr>iters := Suc (iters L)\<rparr>)
     else (Inr (l, real_of_int c / real (length (dataset L))), net_to CPU n',
           L\<lparr>iters := Suc (iters L)\<rparr>))"
  using assms by (simp add: test_def loader_iter_def Let_def)

text \<open>
  With a bound \<open>k\<close> not yet passed by the batch index and enough batches left, the loop
  runs the forward pass on the next \<open>k - batch_idx + 1\<close> batches and breaks.
\<close>

lemma test_loop_forwarded:
  "int i \<le> k \<Longrightarrow> k - int i < int (length bs) \<Longrightarrow>
   forwarded (calls (snd (snd (test_loop T (Some k) i bs (c, l, n))))) =
   forwarded (calls n) @ map img (take (nat (k - int i) + 1) bs)"
proof (induction bs arbitrary: i c l n)
  case Nil
  then show ?case by simp
next
  case (Cons b bs)
  show ?case
  proof (cases "int i = k")
    case True
    then show ?thesis by (simp add: Let_def forwarded_append)
  next
    case False
    with Cons.prems have lt: "int (Suc i) \<le> k" and len: "k - int (Suc i) < int (length bs)"
      by auto
    have eq: "nat (k - int i) = Suc (nat (k - int (Suc i)))"
      using lt by auto
    show ?thesis
      using False Cons.IH [OF lt len] by (simp add: Let_def forwarded_append eq)
  qed
qed

text \<open>
  Without a bound, or with a bound the batch index has already passed (in particular a
  negative one), the comparison never succeeds and every batch is processed.
\<close>

lemma test_loop_forwarded_all:
  "(\<And>s. steps = Some s \<Longrightarrow> s < int i) \<Longrightarrow>
   forwarded (calls (snd (snd (test_loop T steps i bs (c, l, n))))) =
   forwarded (calls n) @ map img bs"
proof (induction bs arbitrary: i c l n)
  case Nil
  then show ?case by simp
next
  case (Cons b bs)
  have "\<And>s. steps = Some s \<Longrightarrow> s < int (Suc i)" using Cons.prems by fastforce
  from Cons.IH [OF this] Cons.prems show ?case
    by (cases steps) (auto simp add: Let_def forwarded_append)
qed

text \<open>
  Claim C1.  A call of \<open>test\<close> with \<open>steps = k\<close> (a batch count, \<open>k \<ge> 0\<close>) on a loader that
  yields more than \<open>k + 1\<close> batches runs the forward pass on exactly the first \<open>k + 1\<close>
  batches, in order, and on no other: the loop breaks when the batch index equals \<open>steps\<close>.
\<close>

theorem test_steps_processes_k_plus_1:
  assumes "0 \<le> k" and "k + 1 < int (length (batches_of L (iters L)))"
  shows "forwarded (calls (fst (snd (test T net L (Some k) dev)))) =
           forwarded (calls net) @ map img (take (nat k + 1) (batches_of L (iters L)))
         \<and> int (length (forwarded (calls (fst (snd (test T net L (Some k) dev)))))) =
           int (length (forwarded (calls net))) + (k + 1)"
proof -
  let ?bs = "batches_of L (iters L)"
  let ?n = "net_eval (net_to dev net)"
  obtain c l n' where loop: "test_loop T (Some k) 0 ?bs (0, 0, ?n) = (c, l, n')"
    by (cases "test_loop T (Some k) 0 ?bs (0, 0, ?n)") auto
  have "forwarded (calls (snd (snd (test_loop T (Some k) 0 ?bs (0, 0, ?n))))) =
        forwarded (calls ?n) @ map img (take (nat (k - int 0) + 1) ?bs)"
    using assms by (intro test_loop_forwarded) auto
  then have "forwarded (calls n') = forwarded (calls ?n) @ map img (take (nat k + 1) ?bs)"
    unfolding loop by simp
  then have n': "forwarded (calls n') = forwarded (calls net) @ map img (take (nat k + 1) ?bs)"
    by (simp add: net_eval_def net_to_def forwarded_append)
  have after: "forwarded (calls (fst (snd (test T net L (Some k) dev)))) = forwarded (calls n')"
    by (simp add: test_unfold [OF loop] net_to_def forwarded_append)
  have "length (take (nat k + 1) ?bs) = nat k + 1" using assms by auto
  with after n' assms(1) show ?thesis by simp
qed

theorem test_steps_processes_k_plus_1_witness:
  "(0::int) \<le> 1 \<and> (1::int) + 1 < int (length (batches_of toy_loader (iters toy_loader))) \<and>
   forwarded (calls (fst (snd (test toy_torch toy_net toy_loader (Some 1) (CUDA 0))))) = [0, 1]"
  using test_steps_processes_k_plus_1 [of 1 toy_loader toy_torch toy_net "CUDA 0"]
  by (simp add: toy_loader_def toy_net_def)




lemma steps_in_append: "steps_in (cs @ ds) = steps_in cs @ steps_in ds"
  by (induction cs rule: steps_in.induct) simp_all

text \<open>The loop leaves the model where it is and as it is, and only extends its log.\<close>

lemma test_loop_frame:
  "test_loop T steps i bs (c, l, n) = (c', l', n') \<Longrightarrow>
   device n' = device n \<and> params n' = params n \<and> grads n' = grads n \<and>
   training n' = training n \<and> (\<exists>cs. calls n' = calls n @ cs) \<and> steps_in (calls n') = steps_in (calls n)"
proof (induction bs arbitrary: i c l n)
  case Nil
  then show ?case by simp
next
  case (Cons b bs)
  show ?case
  proof (cases "steps \<noteq> None \<and> int i = the steps")
    case True
    with Cons.prems show ?thesis by (auto simp add: Let_def steps_in_append)
  next
    case False
    with Cons.prems have
      "test_loop T steps (Suc i) bs
         (c + count_equal (argmax T (forward T (training n) (params n) (img b))) (label b),
          l + item T (cross_entropy T (forward T (training n) (params n) (img b)) (label b)),
          n\<lparr>calls := calls n @ [Forward (img b), CrossEntropy]\<rparr>) = (c', l', n')"
      by (auto simp add: Let_def)
    from Cons.IH [OF this] show ?thesis by (auto simp add: steps_in_append)
  qed
qed




text \<open>
  Claim C8.  \<open>test\<close> divides the count of correct predictions by the size of the
  loader's dataset: on an empty dataset the division raises \<open>ZeroDivisionError\<close>, and
  on a non-empty one the call returns the loss with that quotient.  So \<open>test\<close> returns
  normally exactly when the dataset is not empty.
\<close>

theorem test_raises_iff_dataset_empty:
  "(dataset L = [] \<longrightarrow> fst (test T net L steps dev) = Inl ZeroDivisionError) \<and>
   (dataset L \<noteq> [] \<longrightarrow>
      (\<exists>correct loss. fst (test T net L steps dev) =
          Inr (loss, real_of_int correct / real (length (dataset L)))))"
proof -
  let ?bs = "batches_of L (iters L)"
  let ?n = "net_eval (net_to dev net)"
  obtain c l n' where loop: "test_loop T steps 0 ?bs (0, 0, ?n) = (c, l, n')"
    by (cases "test_loop T steps 0 ?bs (0, 0, ?n)") auto
  show ?thesis by (auto simp add: test_unfold [OF loop])
qed

theorem test_raises_iff_dataset_empty_witness:
  "dataset empty_loader = [] \<and>
   fst (test toy_torch toy_net empty_loader None CPU) = Inl ZeroDivisionError \<and>
   dataset toy_loader \<noteq> [] \<and>
   (\<exists>correct loss. fst (test toy_torch toy_net toy_loader None CPU) =
          Inr (loss, real_of_int correct / real (length (dataset toy_loader))))"
  using test_raises_iff_dataset_empty [of empty_loader toy_torch toy_net None CPU]
    test_raises_iff_dataset_empty [of toy_loader toy_torch toy_net None CPU]
  by (simp add: empty_loader_def toy_loader_def)

section \<open>Properties of the training loop\<close>

text \<open>One training batch appends its five calls, in order, and keeps the hyperparameters.\<close>

lemma train_batch_effect:
  assumes "train_batch T (n, opt) b = (n', opt')"
  shows "calls n' = calls n @ batch_calls (hyper opt) b \<and> hyper opt' = hyper opt \<and>
         device n' = device n \<and> training n' = training n"
  using assms by (auto simp add: train_batch_def Let_def batch_calls_def split: prod.splits)

lemma fold_train_batch_effect:
  "fold (\<lambda>batch st. train_batch T st batch) bs (n, opt) = (n', opt') \<Longrightarrow>
   calls n' = calls n @ concat (map (batch_calls (hyper opt)) bs) \<and> hyper opt' = hyper opt \<and>
   device n' = device n \<and> training n' = training n"
proof (induction bs arbitrary: n opt)
  case Nil
  then show ?case by simp
next
  case (Cons b bs)
  obtain n1 opt1 where step: "train_batch T (n, opt) b = (n1, opt1)"
    by (cases "train_batch T (n, opt) b") auto
  with Cons.prems have "fold (\<lambda>batch st. train_batch T st batch) bs (n1, opt1) = (n', opt')"
    by simp
  from Cons.IH [OF this] train_batch_effect [OF step] show ?case by simp
qed

lemma train_pass_effect:
  assumes "train_pass T (n, opt, L) = (n', opt', L')"
  shows "calls n' = calls n @ concat (map (batch_calls (hyper opt)) (batches_of L (iters L))) \<and>
         hyper opt' = hyper opt \<and> L' = L\<lparr>iters := Suc (iters L)\<rparr> \<and>
         device n' = device n \<and> training n' = training n"
proof -
  obtain n1 opt1 where
    f: "fold (\<lambda>batch st. train_batch T st batch) (batches_of L (iters L)) (n, opt) = (n1, opt1)"
    by (cases "fold (\<lambda>batch st. train_batch T st batch) (batches_of L (iters L)) (n, opt)") auto
  with assms have "n' = n1" "opt' = opt1" "L' = L\<lparr>iters := Suc (iters L)\<rparr>"
    by (simp_all add: train_pass_def loader_iter_def Let_def)
  with fold_train_batch_effect [OF f] show ?thesis by simp
qed

text \<open>\<open>k\<close> passes: pass \<open>e\<close> runs over the batches of the loader's iteration \<open>iters L + e\<close>.\<close>

lemma train_passes_effect:
  "(train_pass T ^^ k) (n, opt, L) = (n', opt', L') \<Longrightarrow>
   calls n' = calls n @
     concat (map (\<lambda>e. concat (map (batch_calls (hyper opt)) (batches_of L (iters L + e)))) [0..<k]) \<and>
   hyper opt' = hyper opt \<and> L' = L\<lparr>iters := iters L + k\<rparr> \<and>
   device n' = device n \<and> training n' = training n"
proof (induction k arbitrary: n' opt' L')
  case 0
  then show ?case by simp
next
  case (Suc k)
  obtain n1 opt1 L1 where before: "(train_pass T ^^ k) (n, opt, L) = (n1, opt1, L1)"
    by (cases "(train_pass T ^^ k) (n, opt, L)") auto
  with Suc.prems have last: "train_pass T (n1, opt1, L1) = (n', opt', L')" by simp
  from Suc.IH [OF before] train_pass_effect [OF last] show ?case by simp
qed

lemma train_phase_unfold:
  assumes "(train_pass T ^^ nat epochs)
             (net_train (net_to dev net),
              SGD T (params (net_to dev net)) (1 / 10) (9 / 10) (1 / 10000), trainloader)
           = (n', opt', trainloader')"
  shows "train_phase T net trainloader epochs dev = (net_to CPU n', trainloader')"
  using assms by (simp add: train_phase_def Let_def)

text \<open>
  The loop of the source refines the step of the spec: one batch, one pass, \<open>k\<close> passes.
\<close>

lemma train_batch_state:
  assumes "train_batch T (n, opt) b = (n', opt')" and "training n"
  shows "(params n', grads n', opt_state opt') =
           spec_batch_step T (hyper opt) b (params n, grads n, opt_state opt)"
  using assms
  by (auto simp add: train_batch_def spec_batch_step_def Let_def split: prod.splits)

lemma fold_train_batch_state:
  "fold (\<lambda>batch st. train_batch T st batch) bs (n, opt) = (n', opt') \<Longrightarrow> training n \<Longrightarrow>
   (params n', grads n', opt_state opt') =
     fold (spec_batch_step T (hyper opt)) bs (params n, grads n, opt_state opt)"
proof (induction bs arbitrary: n opt)
  case Nil
  then show ?case by simp
next
  case (Cons b bs)
  obtain n1 opt1 where step: "train_batch T (n, opt) b = (n1, opt1)"
    by (cases "train_batch T (n, opt) b") auto
  with Cons.prems have rest: "fold (\<lambda>batch st. train_batch T st batch) bs (n1, opt1) = (n', opt')"
    by simp
  from train_batch_effect [OF step] Cons.prems(2)
  have keep: "training n1" "hyper opt1 = hyper opt" by simp_all
  from Cons.IH [OF rest keep(1)] keep(2) train_batch_state [OF step Cons.prems(2)]
  show ?case by simp
qed

lemma train_pass_state:
  assumes "train_pass T (n, opt, L) = (n', opt', L')" and "training n"
  shows "(params n', grads n', opt_state opt') =
           fold (spec_batch_step T (hyper opt)) (batches_of L (iters L))
             (params n, grads n, opt_state opt)"
proof -
  obtain n1 opt1 where
    f: "fold (\<lambda>batch st. train_batch T st batch) (batches_of L (iters L)) (n, opt) = (n1, opt1)"
    by (cases "fold (\<lambda>batch st. train_batch T st batch) (batches_of L (iters L)) (n, opt)") auto
  with assms(1) have "n' = n1" "opt' = opt1"
    by (simp_all add: train_pass_def loader_iter_def Let_def)
  with fold_train_batch_state [OF f assms(2)] show ?thesis by simp
qed

lemma train_passes_state:
  "(train_pass T ^^ k) (n, opt, L) = (n', opt', L') \<Longrightarrow> training n \<Longrightarrow>
   (params n', grads n', opt_state opt') =
     fold (spec_batch_step T (hyper opt))
       (concat (map (\<lambda>e. batches_of L (iters L + e)) [0..<k]))
       (params n, grads n, opt_state opt)"
proof (induction k arbitrary: n' opt' L')
  case 0
  then show ?case by simp
next
  case (Suc k)
  obtain n1 opt1 L1 where before: "(train_pass T ^^ k) (n, opt, L) = (n1, opt1, L1)"
    by (cases "(train_pass T ^^ k) (n, opt, L)") auto
  with Suc.prems have last: "train_pass T (n1, opt1, L1) = (n', opt', L')" by simp
  from train_passes_effect [OF before] Suc.prems(2)
  have keep: "training n1" "hyper opt1 = hyper opt" "L1 = L\<lparr>iters := iters L + k\<rparr>"
    by simp_all
  from train_pass_state [OF last keep(1)] keep(2,3) Suc.IH [OF before Suc.prems(2)]
  show ?case by simp
qed

text \<open>
  Claim C3.  The training phase of \<open>train\<close> iterates the training loader \<open>epochs\<close> times
  (\<open>nat epochs\<close>: \<open>range(epochs)\<close> is empty for a negative \<open>epochs\<close>), each time over all the
  batches the loader yields.  On every batch it calls, in this order, \<open>zero_grad\<close>, the
  forward pass on the batch's images, the cross-entropy loss, \<open>backward\<close> and one optimizer
  step of an SGD with learning rate 0.1, momentum 0.9 and weight decay 0.0001, and makes
  no other call between the move to the device with the switch to training mode and the
  move back to the CPU.  The weights and gradients it leaves are those obtained by
  performing, batch after batch over all these passes and starting from the model's
  weights and gradients and a fresh optimizer state, the step of the spec: gradients
  zeroed, the cross-entropy loss of the training-mode output and the labels
  back-propagated into them, and the SGD update applied with these hyperparameters.
\<close>

theorem train_phase_sgd_passes:
  "calls (fst (train_phase T net trainloader epochs dev)) =
     calls net @ [To dev, TrainMode] @
     concat (map (\<lambda>e. concat (map (batch_calls \<lparr>lr = 1 / 10, momentum = 9 / 10,
                                                 weight_decay = 1 / 10000\<rparr>)
                                    (batches_of trainloader (iters trainloader + e))))
                 [0..<nat epochs]) @
     [To CPU]
   \<and> iters (snd (train_phase T net trainloader epochs dev)) = iters trainloader + nat epochs
   \<and> (\<exists>s. fold (spec_batch_step T \<lparr>lr = 1 / 10, momentum = 9 / 10, weight_decay = 1 / 10000\<rparr>)
             (concat (map (\<lambda>e. batches_of trainloader (iters trainloader + e)) [0..<nat epochs]))
             (params net, grads net, sgd_init T (params net)) =
           (params (fst (train_phase T net trainloader epochs dev)),
            grads (fst (train_phase T net trainloader epochs dev)), s))"
proof -
  let ?n = "net_train (net_to dev net)"
  let ?opt = "SGD T (params (net_to dev net)) (1 / 10) (9 / 10) (1 / 10000)"
  obtain n' opt' trainloader' where
    run: "(train_pass T ^^ nat epochs) (?n, ?opt, trainloader) = (n', opt', trainloader')"
    by (cases "(train_pass T ^^ nat epochs) (?n, ?opt, trainloader)") auto
  have h: "hyper ?opt = \<lparr>lr = 1 / 10, momentum = 9 / 10, weight_decay = 1 / 10000\<rparr>"
    by (simp add: SGD_def)
  have tr: "training ?n" by (simp add: net_train_def)
  have init: "(params ?n, grads ?n, opt_state ?opt) = (params net, grads net, sgd_init T (params net))"
    by (simp add: net_train_def net_to_def SGD_def)
  have log: "calls (fst (train_phase T net trainloader epochs dev)) =
     calls net @ [To dev, TrainMode] @
     concat (map (\<lambda>e. concat (map (batch_calls \<lparr>lr = 1 / 10, momentum = 9 / 10,
                                                 weight_decay = 1 / 10000\<rparr>)
                                    (batches_of trainloader (iters trainloader + e))))
                 [0..<nat epochs]) @
     [To CPU]
   \<and> iters (snd (train_phase T net trainloader epochs dev)) = iters trainloader + nat epochs"
    using train_passes_effect [OF run]
    unfolding train_phase_unfold [OF run] h
    by (simp add: net_to_def net_train_def)
  have "(params n', grads n', opt_state opt') =
      fold (spec_batch_step T \<lparr>lr = 1 / 10, momentum = 9 / 10, weight_decay = 1 / 10000\<rparr>)
        (concat (map (\<lambda>e. batches_of trainloader (iters trainloader + e)) [0..<nat epochs]))
        (params net, grads net, sgd_init T (params net))"
    using train_passes_state [OF run tr] unfolding h init .
  then have st: "fold (spec_batch_step T \<lparr>lr = 1 / 10, momentum = 9 / 10, weight_decay = 1 / 10000\<rparr>)
        (concat (map (\<lambda>e. batches_of trainloader (iters trainloader + e)) [0..<nat epochs]))
        (params net, grads net, sgd_init T (params net)) =
      (params (fst (train_phase T net trainloader epochs dev)),
       grads (fst (train_phase T net trainloader epochs dev)), opt_state opt')"
    unfolding train_phase_unfold [OF run] by (simp add: net_to_def)
  from log st show ?thesis by blast
qed

theorem train_phase_sgd_passes_witness:
  "params (fst (train_phase toy_torch toy_net toy_loader 1 (CUDA 0))) = 1 \<and>
   grads (fst (train_phase toy_torch toy_net toy_loader 1 (CUDA 0))) = 1 \<and>
   steps_in (calls (fst (train_phase toy_torch toy_net toy_loader 1 (CUDA 0)))) =
     replicate 4 \<lparr>lr = 1 / 10, momentum = 9 / 10, weight_decay = 1 / 10000\<rparr>"
  using train_phase_sgd_passes [of toy_torch toy_net toy_loader 1 "CUDA 0"]
  by (auto simp add: toy_loader_def toy_net_def toy_torch_def spec_batch_step_def batch_calls_def
      numeral_eq_Suc)

section \<open>Relocation of the model\<close>

text \<open>
  What a call of \<open>test\<close> does to the model: it moves it to the device first, leaves its
  weights alone and makes no optimizer step; it raises on an empty dataset with the
  model as the loop left it, and otherwise moves the model to the CPU and returns.
\<close>

lemma test_effect:
  obtains c l n' where
    "test T net L steps dev =
      (if dataset L = [] then (Inl ZeroDivisionError, n', L\<lparr>iters := Suc (iters L)\<rparr>)
       else (Inr (l, real_of_int c / real (length (dataset L))), net_to CPU n',
             L\<lparr>iters := Suc (iters L)\<rparr>))"
    "device n' = dev" "params n' = params net"
    "\<exists>cs. calls n' = calls net @ To dev # cs"
    "steps_in (calls n') = steps_in (calls net)"
    "steps = None \<Longrightarrow>
       forwarded (calls n') = forwarded (calls net) @ map img (batches_of L (iters L))"
proof -
  let ?bs = "batches_of L (iters L)"
  let ?n = "net_eval (net_to dev net)"
  obtain c l n' where loop: "test_loop T steps 0 ?bs (0, 0, ?n) = (c, l, n')"
    by (cases "test_loop T steps 0 ?bs (0, 0, ?n)") auto
  from test_loop_frame [OF loop]
  have fr: "device n' = dev" "params n' = params net"
    "\<exists>cs. calls n' = calls net @ To dev # cs" "steps_in (calls n') = steps_in (calls net)"
    by (auto simp add: net_eval_def net_to_def steps_in_append)
  have fw: "forwarded (calls n') = forwarded (calls net) @ map img ?bs" if "steps = None"
  proof -
    have "forwarded (calls (snd (snd (test_loop T steps 0 ?bs (0, 0, ?n))))) =
          forwarded (calls ?n) @ map img ?bs"
      by (rule test_loop_forwarded_all) (simp add: that)
    then show ?thesis unfolding loop by (simp add: net_eval_def net_to_def forwarded_append)
  qed
  from test_unfold [OF loop] fr fw show ?thesis by (rule that)
qed

lemma train_phase_effect:
  obtains n1 where
    "train_phase T net trainloader epochs dev =
       (n1, trainloader\<lparr>iters := iters trainloader + nat epochs\<rparr>)"
    "device n1 = CPU"
    "\<exists>mid. calls n1 = calls net @ To dev # mid @ [To CPU]"
proof -
  let ?n = "net_train (net_to dev net)"
  let ?opt = "SGD T (params (net_to dev net)) (1 / 10) (9 / 10) (1 / 10000)"
  obtain n' opt' trainloader' where
    run: "(train_pass T ^^ nat epochs) (?n, ?opt, trainloader) = (n', opt', trainloader')"
    by (cases "(train_pass T ^^ nat epochs) (?n, ?opt, trainloader)") auto
  from train_passes_effect [OF run]
  have "trainloader' = trainloader\<lparr>iters := iters trainloader + nat epochs\<rparr>"
    and "\<exists>mid. calls n' = calls net @ To dev # mid"
    by (simp_all add: net_to_def net_train_def)
  then have "train_phase T net trainloader epochs dev =
      (net_to CPU n', trainloader\<lparr>iters := iters trainloader + nat epochs\<rparr>)"
    and "device (net_to CPU n') = CPU"
    and "\<exists>mid. calls (net_to CPU n') = calls net @ To dev # mid @ [To CPU]"
    using train_phase_unfold [OF run] by (auto simp add: net_to_def)
  then show ?thesis by (rule that)
qed

lemma test_returns_effect:
  assumes "fst (test T net L steps dev) = Inr r"
  shows "(\<exists>mid. calls (fst (snd (test T net L steps dev))) = calls net @ To dev # mid @ [To CPU]) \<and>
         device (fst (snd (test T net L steps dev))) = CPU"
proof -
  obtain c l n' where t: "test T net L steps dev =
      (if dataset L = [] then (Inl ZeroDivisionError, n', L\<lparr>iters := Suc (iters L)\<rparr>)
       else (Inr (l, real_of_int c / real (length (dataset L))), net_to CPU n',
             L\<lparr>iters := Suc (iters L)\<rparr>))"
    and cs: "\<exists>cs. calls n' = calls net @ To dev # cs"
    by (rule test_effect)
  from assms t have ne: "dataset L \<noteq> []" by (auto split: if_splits)
  with t cs show ?thesis by (auto simp add: net_to_def)
qed

lemma train_returns_effect:
  assumes "fst (train T net trainloader valloader epochs dev) = Inr res"
  shows "(\<exists>mid. calls (fst (snd (train T net trainloader valloader epochs dev))) =
            calls net @ To dev # mid @ [To CPU]) \<and>
         device (fst (snd (train T net trainloader valloader epochs dev))) = CPU"
proof -
  let ?L1 = "trainloader\<lparr>iters := iters trainloader + nat epochs\<rparr>"
  obtain n1 where ph: "train_phase T net trainloader epochs dev = (n1, ?L1)"
    and c1: "\<exists>mid. calls n1 = calls net @ To dev # mid @ [To CPU]"
    by (rule train_phase_effect)
  obtain r1 n2 L2 where t1: "test T n1 ?L1 None CPU = (r1, n2, L2)"
    by (cases "test T n1 ?L1 None CPU") auto
  obtain r2 n3 L3 where t2: "test T n2 valloader None CPU = (r2, n3, L3)"
    by (cases "test T n2 valloader None CPU") auto
  from assms ph t1 t2 obtain v1 v2 where r: "r1 = Inr v1" "r2 = Inr v2"
    by (cases r1; cases r2) (auto simp add: train_def split: prod.splits)
  have fin: "fst (snd (train T net trainloader valloader epochs dev)) = n3"
    using ph t1 t2 r by (simp add: train_def split: prod.splits)
  from test_returns_effect [of T n1 ?L1 None CPU v1] t1 r
  obtain m1 where c2: "calls n2 = calls n1 @ To CPU # m1 @ [To CPU]" by auto
  from test_returns_effect [of T n2 valloader None CPU v2] t2 r
  obtain m2 where c3: "calls n3 = calls n2 @ To CPU # m2 @ [To CPU]" and d3: "device n3 = CPU"
    by auto
  from c1 obtain m0 where "calls n1 = calls net @ To dev # m0 @ [To CPU]" by blast
  with c2 c3 have "calls n3 =
      calls net @ To dev # (m0 @ [To CPU] @ To CPU # m1 @ [To CPU] @ To CPU # m2) @ [To CPU]"
    by simp
  then have "\<exists>mid. calls n3 = calls net @ To dev # mid @ [To CPU]" by blast
  with d3 fin show ?thesis by simp
qed

text \<open>The two toy runs used below.\<close>

lemma toy_test:
  "test toy_torch toy_net toy_loader None (CUDA 0) =
     (Inr (2, 3 / 4),
      toy_net\<lparr>device := CPU, training := False,
              calls := [To (CUDA 0), EvalMode, Forward 0, CrossEntropy, Forward 1, CrossEntropy,
                        Forward 2, CrossEntropy, Forward 3, CrossEntropy, To CPU]\<rparr>,
      toy_loader\<lparr>iters := 1\<rparr>)"
  by (simp add: test_def loader_iter_def toy_loader_def toy_net_def toy_torch_def
        net_to_def net_eval_def count_equal_def Let_def)

lemma toy_train:
  "fst (train toy_torch toy_net toy_loader toy_loader epochs (CUDA 0)) =
     Inr [(''train_loss'', 2), (''train_accuracy'', 3 / 4),
          (''val_loss'', 2), (''val_accuracy'', 3 / 4)]"
  if "epochs = 0 \<or> epochs = 1"
  using that
  by (auto simp add: train_def train_phase_def train_pass_def train_batch_def SGD_def
        test_def loader_iter_def toy_loader_def toy_net_def toy_torch_def
        net_to_def net_eval_def net_train_def count_equal_def Let_def)

text \<open>
  Claim C7, as the code has it.  A call of \<open>test\<close> or of \<open>train\<close> that returns normally has
  moved the model to the target device as its first call on it and to the CPU as its
  last, and leaves the model on the CPU.
\<close>

theorem relocation_on_return:
  "(fst (test T net L steps dev) = Inr r \<longrightarrow>
      (\<exists>mid. calls (fst (snd (test T net L steps dev))) = calls net @ To dev # mid @ [To CPU]) \<and>
      device (fst (snd (test T net L steps dev))) = CPU) \<and>
   (fst (train T net trainloader valloader epochs dev) = Inr res \<longrightarrow>
      (\<exists>mid. calls (fst (snd (train T net trainloader valloader epochs dev))) =
            calls net @ To dev # mid @ [To CPU]) \<and>
      device (fst (snd (train T net trainloader valloader epochs dev))) = CPU)"
  using test_returns_effect [of T net L steps dev r]
    train_returns_effect [of T net trainloader valloader epochs dev res]
  by blast

theorem relocation_on_return_witness:
  "fst (test toy_torch toy_net toy_loader None (CUDA 0)) = Inr (2, 3 / 4) \<and>
   device (fst (snd (test toy_torch toy_net toy_loader None (CUDA 0)))) = CPU \<and>
   fst (train toy_torch toy_net toy_loader toy_loader 1 (CUDA 0)) =
     Inr [(''train_loss'', 2), (''train_accuracy'', 3 / 4),
          (''val_loss'', 2), (''val_accuracy'', 3 / 4)] \<and>
   device (fst (snd (train toy_torch toy_net toy_loader toy_loader 1 (CUDA 0)))) = CPU"
  using relocation_on_return [of toy_torch toy_net toy_loader None "CUDA 0" "(2, 3 / 4)"
      toy_loader toy_loader 1
      "[(''train_loss'', 2), (''train_accuracy'', 3 / 4),
        (''val_loss'', 2), (''val_accuracy'', 3 / 4)]"]
    toy_test toy_train [of 1]
  by simp

text \<open>
  Claim C7 as stated fails on the call that raises: on a loader over an empty dataset,
  \<open>test\<close> on an accelerator raises \<open>ZeroDivisionError\<close> at the division, before its
  \<open>net.to("cpu")\<close>, and the model is left on the accelerator.
\<close>

theorem test_raise_leaves_model_on_device:
  "fst (test toy_torch toy_net empty_loader None (CUDA 0)) = Inl ZeroDivisionError \<and>
   device (fst (snd (test toy_torch toy_net empty_loader None (CUDA 0)))) = CUDA 0 \<and>
   device (fst (snd (test toy_torch toy_net empty_loader None (CUDA 0)))) \<noteq> CPU"
  by (simp add: test_def loader_iter_def empty_loader_def toy_net_def net_to_def net_eval_def)

section \<open>Training with no epochs\<close>

lemma train_phase_zero:
  "train_phase T net trainloader 0 dev = (net_to CPU (net_train (net_to dev net)), trainloader)"
  by (simp add: train_phase_def Let_def)

text \<open>
  Claim C10.  With \<open>epochs = 0\<close> the training phase leaves the weights as they were and
  makes no optimizer step.  \<open>train\<close> still evaluates: when both datasets are non-empty
  (the precondition of the division in \<open>test\<close>), it runs \<open>test\<close> on the training loader
  and then on the validation loader, the forward pass going over all their batches with
  the unchanged weights, and returns the dictionary of the four metrics.
\<close>

theorem train_zero_epochs:
  "params (fst (train_phase T net trainloader 0 dev)) = params net \<and>
   steps_in (calls (fst (train_phase T net trainloader 0 dev))) = steps_in (calls net) \<and>
   (dataset trainloader \<noteq> [] \<and> dataset valloader \<noteq> [] \<longrightarrow>
     (\<exists>train_loss train_acc val_loss val_acc n1 l1 n2 l2.
        test T (fst (train_phase T net trainloader 0 dev)) trainloader None CPU =
          (Inr (train_loss, train_acc), n1, l1) \<and>
        test T n1 valloader None CPU = (Inr (val_loss, val_acc), n2, l2) \<and>
        train T net trainloader valloader 0 dev =
          (Inr [(''train_loss'', train_loss), (''train_accuracy'', train_acc),
                (''val_loss'', val_loss), (''val_accuracy'', val_acc)], n2, l1, l2) \<and>
        params n2 = params net \<and>
        steps_in (calls n2) = steps_in (calls net) \<and>
        forwarded (calls n2) =
          forwarded (calls net) @ map img (batches_of trainloader (iters trainloader)) @
          map img (batches_of valloader (iters valloader))))"
proof -
  let ?n0 = "net_to CPU (net_train (net_to dev net))"
  have ph: "train_phase T net trainloader 0 dev = (?n0, trainloader)"
    by (rule train_phase_zero)
  have p0: "params ?n0 = params net" "steps_in (calls ?n0) = steps_in (calls net)"
    "forwarded (calls ?n0) = forwarded (calls net)"
    by (simp_all add: net_to_def net_train_def steps_in_append forwarded_append)
  have ev: "\<exists>train_loss train_acc val_loss val_acc n1 l1 n2 l2.
        test T ?n0 trainloader None CPU = (Inr (train_loss, train_acc), n1, l1) \<and>
        test T n1 valloader None CPU = (Inr (val_loss, val_acc), n2, l2) \<and>
        train T net trainloader valloader 0 dev =
          (Inr [(''train_loss'', train_loss), (''train_accuracy'', train_acc),
                (''val_loss'', val_loss), (''val_accuracy'', val_acc)], n2, l1, l2) \<and>
        params n2 = params net \<and>
        steps_in (calls n2) = steps_in (calls net) \<and>
        forwarded (calls n2) =
          forwarded (calls net) @ map img (batches_of trainloader (iters trainloader)) @
          map img (batches_of valloader (iters valloader))"
    if ne: "dataset trainloader \<noteq> []" "dataset valloader \<noteq> []"
  proof -
    obtain c1 s1 m1 where
      t1: "test T ?n0 trainloader None CPU =
        (if dataset trainloader = []
         then (Inl ZeroDivisionError, m1, trainloader\<lparr>iters := Suc (iters trainloader)\<rparr>)
         else (Inr (s1, real_of_int c1 / real (length (dataset trainloader))), net_to CPU m1,
               trainloader\<lparr>iters := Suc (iters trainloader)\<rparr>))"
      and m1: "params m1 = params ?n0" "steps_in (calls m1) = steps_in (calls ?n0)"
        "forwarded (calls m1) =
           forwarded (calls ?n0) @ map img (batches_of trainloader (iters trainloader))"
      by (rule test_effect [of T ?n0 trainloader None CPU]) auto
    let ?n1 = "net_to CPU m1"
    have p1: "params ?n1 = params net" "steps_in (calls ?n1) = steps_in (calls net)"
      "forwarded (calls ?n1) =
         forwarded (calls net) @ map img (batches_of trainloader (iters trainloader))"
      using m1 p0 by (simp_all add: net_to_def steps_in_append forwarded_append)
    obtain c2 s2 m2 where
      t2: "test T ?n1 valloader None CPU =
        (if dataset valloader = []
         then (Inl ZeroDivisionError, m2, valloader\<lparr>iters := Suc (iters valloader)\<rparr>)
         else (Inr (s2, real_of_int c2 / real (length (dataset valloader))), net_to CPU m2,
               valloader\<lparr>iters := Suc (iters valloader)\<rparr>))"
      and m2: "params m2 = params ?n1" "steps_in (calls m2) = steps_in (calls ?n1)"
        "forwarded (calls m2) =
           forwarded (calls ?n1) @ map img (batches_of valloader (iters valloader))"
      by (rule test_effect [of T ?n1 valloader None CPU]) auto
    let ?n2 = "net_to CPU m2"
    have p2: "params ?n2 = params net" "steps_in (calls ?n2) = steps_in (calls net)"
      "forwarded (calls ?n2) =
         forwarded (calls net) @ map img (batches_of trainloader (iters trainloader)) @
         map img (batches_of valloader (iters valloader))"
      using m2 p1 by (simp_all add: net_to_def steps_in_append forwarded_append)
    have t1': "test T ?n0 trainloader None CPU =
        (Inr (s1, real_of_int c1 / real (length (dataset trainloader))), ?n1,
         trainloader\<lparr>iters := Suc (iters trainloader)\<rparr>)"
      using t1 ne(1) by simp
    have t2': "test T ?n1 valloader None CPU =
        (Inr (s2, real_of_int c2 / real (length (dataset valloader))), ?n2,
         valloader\<lparr>iters := Suc (iters valloader)\<rparr>)"
      using t2 ne(2) by simp
    have tr: "train T net trainloader valloader 0 dev =
        (Inr [(''train_loss'', s1),
              (''train_accuracy'', real_of_int c1 / real (length (dataset trainloader))),
              (''val_loss'', s2),
              (''val_accuracy'', real_of_int c2 / real (length (dataset valloader)))],
         ?n2, trainloader\<lparr>iters := Suc (iters trainloader)\<rparr>,
         valloader\<lparr>iters := Suc (iters valloader)\<rparr>)"
      by (simp add: train_def ph t1' t2')
    from t1' t2' tr p2 show ?thesis by blast
  qed
  show ?thesis
    unfolding ph fst_conv using p0(1,2) ev by blast
qed

theorem train_zero_epochs_witness:
  "dataset toy_loader \<noteq> [] \<and>
   params (fst (train_phase toy_torch toy_net toy_loader 0 (CUDA 0))) = 5 \<and>
   steps_in (calls (fst (train_phase toy_torch toy_net toy_loader 0 (CUDA 0)))) = [] \<and>
   fst (train toy_torch toy_net toy_loader toy_loader 0 (CUDA 0)) =
     Inr [(''train_loss'', 2), (''train_accuracy'', 3 / 4),
          (''val_loss'', 2), (''val_accuracy'', 3 / 4)]"
proof -
  have ne: "dataset toy_loader \<noteq> []" by (simp add: toy_loader_def)
  from train_zero_epochs [of toy_torch toy_net toy_loader "CUDA 0" toy_loader] ne toy_train [of 0]
  show ?thesis by (simp add: toy_net_def)
qed

section \<open>Properties of the model adapter\<close>

text \<open>
  Claim C4.  After \<open>replace_classifying_layer(model, classes)\<close> the layer
  \<open>model.classifier.fc\<close> has \<open>out_features = classes\<close> and the \<open>in_features\<close> of the
  layer it replaces.
\<close>

theorem replace_classifying_layer_dims:
  "out_features (fc (classifier (snd (replace_classifying_layer init m classes)))) = classes \<and>
   in_features (fc (classifier (snd (replace_classifying_layer init m classes)))) =
     in_features (fc (classifier m))"
  by (simp add: replace_classifying_layer_def Linear_def Let_def)

text \<open>
  Claim C9.  \<open>replace_classifying_layer\<close> returns \<open>None\<close>, and the model after the call is
  the model before it with nothing but \<open>classifier.fc\<close> replaced: the rest of the
  classifier and every other part of the model are the same.
\<close>

theorem replace_classifying_layer_frame:
  "fst (replace_classifying_layer init m classes) = () \<and>
   backbone (snd (replace_classifying_layer init m classes)) = backbone m \<and>
   classifier_rest (classifier (snd (replace_classifying_layer init m classes))) =
     classifier_rest (classifier m) \<and>
   snd (replace_classifying_layer init m classes) =
     m\<lparr>classifier := (classifier m)
          \<lparr>fc := fc (classifier (snd (replace_classifying_layer init m classes)))\<rparr>\<rparr>"
  by (simp add: replace_classifying_layer_def Let_def)

text \<open>On the toy model, a head for ten classes replaces the head for a thousand.\<close>

lemma toy_replace:
  "snd (replace_classifying_layer (\<lambda>i j. (7, 8)) toy_model 10) =
     \<lparr>classifier = \<lparr>fc = \<lparr>in_features = 1280, out_features = 10, weight = 7, bias = 8\<rparr>,
                    classifier_rest = 3\<rparr>,
      backbone = 4\<rparr>"
  by (simp add: replace_classifying_layer_def Let_def toy_model_def Linear_def)

section \<open>Properties of the transform pipeline\<close>

text \<open>
  Claim C5 as stated fails: \<open>apply_transforms\<close> assigns to \<open>batch["img"]\<close> and returns the
  dictionary it was given.  On the toy store the dictionary at address 0 is returned, and
  its \<open>"img"\<close> entry, which referred to the raw images at address 1, refers afterwards to the
  new list of transformed images at address 3.
\<close>

theorem apply_transforms_mutates_batch:
  "fst (apply_transforms Suc toy_store 0) = Inr 0 \<and>
   toy_store ! 0 = DictObj [(''img'', 1), (''label'', 2)] \<and>
   snd (apply_transforms Suc toy_store 0) ! 0 = DictObj [(''img'', 3), (''label'', 2)] \<and>
   snd (apply_transforms Suc toy_store 0) ! 3 = ListObj [11, 21] \<and>
   snd (apply_transforms Suc toy_store 0) ! 0 \<noteq> toy_store ! 0"
  by (simp add: apply_transforms_def deref_def toy_store_def Let_def)

text \<open>
  Claim C5, as the code has it.  Given a batch dictionary with an \<open>"img"\<close> entry that
  refers to a list, \<open>apply_transforms\<close> returns that same dictionary object, after
  rebinding its \<open>"img"\<close> key (and no other key) to one newly allocated list holding the
  transformed images.  The list of raw images and every other object in the store are
  left as they were.
\<close>

theorem apply_transforms_effect:
  assumes "deref h batch = Some (DictObj d)"
    and "map_of d ''img'' = Some a"
    and "deref h a = Some (ListObj imgs)"
  shows "fst (apply_transforms f h batch) = Inr batch \<and>
         length (snd (apply_transforms f h batch)) = Suc (length h) \<and>
         (\<exists>d'. deref (snd (apply_transforms f h batch)) batch = Some (DictObj d') \<and>
               map_of d' = (map_of d)(''img'' \<mapsto> length h)) \<and>
         deref (snd (apply_transforms f h batch)) (length h) = Some (ListObj (map f imgs)) \<and>
         deref (snd (apply_transforms f h batch)) a = Some (ListObj imgs) \<and>
         (\<forall>b. b \<noteq> batch \<longrightarrow> deref (snd (apply_transforms f h batch)) b =
              (if b = length h then Some (ListObj (map f imgs)) else deref h b))"
proof -
  from assms(1) have b: "batch < length h" "h ! batch = DictObj d"
    by (auto simp add: deref_def split: if_splits)
  from assms(3) have a: "a < length h" "h ! a = ListObj imgs"
    by (auto simp add: deref_def split: if_splits)
  from a b have ne: "a \<noteq> batch" by auto
  have res: "apply_transforms f h batch =
      (Inr batch, (h @ [ListObj (map f imgs)])[batch := DictObj (AList.update ''img'' (length h) d)])"
    using assms by (simp add: apply_transforms_def Let_def)
  show ?thesis
    unfolding res using a b ne
    by (auto simp add: deref_def nth_append update_conv nth_list_update)
qed

theorem apply_transforms_effect_witness:
  "deref toy_store 0 = Some (DictObj [(''img'', 1), (''label'', 2)]) \<and>
   map_of [(''img'', 1), (''label'', 2::nat)] ''img'' = Some (1::nat) \<and>
   deref toy_store 1 = Some (ListObj [10, 20]) \<and>
   fst (apply_transforms Suc toy_store 0) = Inr 0 \<and>
   deref (snd (apply_transforms Suc toy_store 0)) 3 = Some (ListObj [11, 21]) \<and>
   deref (snd (apply_transforms Suc toy_store 0)) 1 = Some (ListObj [10, 20])"
proof -
  have a: "deref toy_store 0 = Some (DictObj [(''img'', 1), (''label'', 2)])"
    by (simp add: deref_def toy_store_def)
  have b: "map_of [(''img'', 1), (''label'', 2::nat)] ''img'' = Some (1::nat)" by simp
  have c: "deref toy_store 1 = Some (ListObj [10, 20])"
    by (simp add: deref_def toy_store_def)
  have l: "length toy_store = 3" by (simp add: toy_store_def)
  from apply_transforms_effect [OF a b c, of Suc] a b c l show ?thesis by simp
qed

section \<open>Properties of the data loader\<close>

lemma n_test_le: "n_test policy n \<le> n"
  by (cases policy) (simp_all add: n_test_def)

lemma n_test_fifth: "5 * n_test policy n < n + 5 \<and> n < 5 * n_test policy n + 5"
  by (cases policy) (simp_all add: n_test_def, presburger+)

text \<open>
  Claim C6.  When the provider accepts the partition identifier, \<open>load_partition\<close> returns
  a train and a test subset whose sizes sum to the size of the partition, and the test
  size differs from a fifth of the partition by less than one sample.
\<close>

theorem load_partition_split_sizes:
  assumes "load_partition provider policy f node_id = Inr (tr, te)"
  shows "\<exists>shard. provider ''cifar10'' 10 node_id = Inr shard \<and>
           length (rows tr) + length (rows te) = length (rows shard) \<and>
           5 * length (rows te) < length (rows shard) + 5 \<and>
           length (rows shard) < 5 * length (rows te) + 5"
proof -
  from assms obtain shard where p: "provider ''cifar10'' 10 node_id = Inr shard"
    by (auto simp add: load_partition_def split: sum.splits)
  let ?n = "length (rows shard)"
  let ?k = "n_test policy ?n"
  from assms p have tr: "rows tr = take (?n - ?k) (rows shard)"
    and te: "rows te = drop (?n - ?k) (rows shard)"
    by (auto simp add: load_partition_def train_test_split_def with_transform_def Let_def)
  have k: "?k \<le> ?n" by (rule n_test_le)
  then have lte: "length (rows te) = ?k" and ltr: "length (rows tr) = ?n - ?k"
    using tr te by auto
  from n_test_fifth [of policy ?n] k lte ltr p show ?thesis by auto
qed

theorem load_partition_split_sizes_witness:
  "load_partition toy_provider RoundUp 0 3 =
     Inr (\<lparr>rows = [0, 1, 2, 3, 4], transform = Some 0\<rparr>, \<lparr>rows = [5, 6], transform = Some 0\<rparr>) \<and>
   (\<exists>shard. toy_provider ''cifar10'' 10 3 = Inr shard \<and> (5::nat) + 2 = length (rows shard))"
proof -
  have a: "load_partition toy_provider RoundUp 0 3 =
     Inr (\<lparr>rows = [0, 1, 2, 3, 4], transform = Some 0\<rparr>, \<lparr>rows = [5, 6], transform = Some 0\<rparr>)"
    by (simp add: load_partition_def toy_provider_def train_test_split_def n_test_def
        with_transform_def Let_def)
  from load_partition_split_sizes [OF a] a show ?thesis by auto
qed

end
